theory Spec2Isabelle
  imports Complex_Main "HOL-Library.Sublist" "HOL-Library.Multiset"
begin

section \<open>Exceptions\<close>

text \<open>
  Every exception the reader can raise is a value; a fallible operation returns
  \<open>exn + 'a\<close> with \<open>Inl\<close> carrying the exception.  \<open>External\<close> stands for any other
  exception raised inside a collaborating library.
\<close>

datatype exn =
    KeyError
  | IndexError
  | ValueError
  | TypeError
  | ZeroDivisionError
  | FileNotFoundError
  | TiffFileError
  | ConflictingArgumentsError
  | UnsupportedFileFormatError
  | External string

section \<open>The opened TIFF file, as the decoding library presents it\<close>

text \<open>
  The tags of a page that the reader looks at.  A tag that the page does not carry is
  \<open>None\<close>; subscripting \<open>tags[name]\<close> then raises \<open>KeyError\<close>.  \<open>ResolutionUnit\<close>
  holds the integer code of the \<open>RESUNIT\<close> enumeration (an integer enumeration, so a
  member and its code are the same dictionary key); the two resolution tags hold a pair
  (pixels, resolution units) of integers.
\<close>

record page_tags =
  ResolutionUnit :: "int option"
  XResolution :: "(int \<times> int) option"
  YResolution :: "(int \<times> int) option"

text \<open>The ImageJ metadata dictionary: the keys \<open>unit\<close> and \<open>spacing\<close>, each possibly missing.\<close>

record imagej_meta =
  ij_unit :: "string option"
  ij_spacing :: "real option"

text \<open>One series (scene): \<open>scene.pages.axes\<close>, \<open>scene.shape\<close>, \<open>scene.dtype\<close> and \<open>scene.pages[0].tags\<close>.\<close>

record tiff_series =
  pages_axes :: string
  series_shape :: "nat list"
  series_dtype :: string
  first_page_tags :: page_tags

text \<open>\<open>imagej_metadata\<close> is \<open>None\<close> exactly when \<open>is_imagej\<close> is false.\<close>

record tiff_file =
  series :: "tiff_series list"
  imagej_metadata :: "imagej_meta option"

definition is_imagej :: "tiff_file \<Rightarrow> bool" where
  "is_imagej tiff = (imagej_metadata tiff \<noteq> None)"

text \<open>\<open>xs[i]\<close> for a non-negative index: \<open>IndexError\<close> out of range.\<close>

definition list_get :: "'a list \<Rightarrow> nat \<Rightarrow> exn + 'a" where
  "list_get xs i = (if i < length xs then Inr (xs ! i) else Inl IndexError)"

text \<open>
  A file system maps a path to what is stored there; a stored file either decodes as a
  TIFF or makes \<open>TiffFile(...)\<close> raise \<open>TiffFileError\<close>.
\<close>

datatype file_content = Tiff tiff_file | NotTiff

type_synonym file_system = "string \<Rightarrow> file_content option"

definition fs_open :: "file_system \<Rightarrow> string \<Rightarrow> exn + file_content" where
  "fs_open fs path = (case fs path of None \<Rightarrow> Inl FileNotFoundError | Some c \<Rightarrow> Inr c)"

definition TiffFile :: "file_content \<Rightarrow> exn + tiff_file" where
  "TiffFile open_resource = (case open_resource of Tiff t \<Rightarrow> Inr t | NotTiff \<Rightarrow> Inl TiffFileError)"

section \<open>The reader object\<close>

datatype chunk_dims_arg = ChunkStr string | ChunkList "string list"

datatype dim_order_arg = DimNone | DimStr string | DimList "string option list"

datatype channel_names_arg = ChNone | ChFlat "string list" | ChNested "string list list"

type_synonym pixel_sizes = "real option \<times> real option \<times> real option"

text \<open>
  The instance attributes.  \<open>path\<close> stands for the pair \<open>_fs\<close>, \<open>_path\<close>; \<open>scenes_cache\<close> and
  \<open>physical_pixel_sizes_cache\<close> are the attributes \<open>_scenes\<close> and \<open>_physical_pixel_sizes\<close>;
  \<open>current_scene_index\<close> is maintained by the base class.
\<close>

record Reader =
  path :: string
  chunk_dims :: "string list"
  dim_order :: dim_order_arg
  channel_names :: channel_names_arg
  scenes_cache :: "string list option"
  physical_pixel_sizes_cache :: "pixel_sizes option"
  current_scene_index :: nat

section \<open>Dimension inference\<close>

text \<open>\<open>Q\<close> is the decoder's "unknown dimension", \<open>I\<close> a generic image sequence.\<close>

definition UNKNOWN_DIM_CHARS :: "string list" where
  "UNKNOWN_DIM_CHARS = [''Q'', ''I'']"

text \<open>
  The inner loop of \<open>_merge_dim_guesses\<close>: the first guessed dimension that is neither in
  the best guess so far nor anywhere in the dimensions from the metadata (\<open>break\<close> at the
  first hit, \<open>None\<close> when the loop runs to its end).
\<close>

fun next_guessed_dim :: "string \<Rightarrow> string list \<Rightarrow> string \<Rightarrow> char option" where
  "next_guessed_dim [] best_guess dims_from_meta = None"
| "next_guessed_dim (guessed_dim # rest) best_guess dims_from_meta =
     (if [guessed_dim] \<notin> set best_guess \<and> guessed_dim \<notin> set dims_from_meta
      then Some guessed_dim
      else next_guessed_dim rest best_guess dims_from_meta)"

text \<open>
  The outer loop, over the remaining characters of the metadata dimensions:
  \<^verbatim>\<open>
  for dim_from_meta in dims_from_meta:
      if dim_from_meta not in UNKNOWN_DIM_CHARS:
          best_guess.append(dim_from_meta)
      else:
          appended_dim = False
          for guessed_dim in guessed_dims:
              if (guessed_dim not in best_guess
                      and guessed_dim not in dims_from_meta):
                  best_guess.append(guessed_dim)
                  appended_dim = True
                  break
          if not appended_dim:
              best_guess.append(dim_from_meta)
  return "".join(best_guess)
  \<close>
\<close>

fun merge_loop :: "string \<Rightarrow> string \<Rightarrow> string \<Rightarrow> string list \<Rightarrow> string list" where
  "merge_loop [] dims_from_meta guessed_dims best_guess = best_guess"
| "merge_loop (dim_from_meta # rest) dims_from_meta guessed_dims best_guess =
     (if [dim_from_meta] \<notin> set UNKNOWN_DIM_CHARS
      then merge_loop rest dims_from_meta guessed_dims (best_guess @ [[dim_from_meta]])
      else (case next_guessed_dim guessed_dims best_guess dims_from_meta of
              Some guessed_dim \<Rightarrow>
                merge_loop rest dims_from_meta guessed_dims (best_guess @ [[guessed_dim]])
            | None \<Rightarrow>
                merge_loop rest dims_from_meta guessed_dims (best_guess @ [[dim_from_meta]])))"

definition merge_dim_guesses :: "string \<Rightarrow> string \<Rightarrow> string" where
  "merge_dim_guesses dims_from_meta guessed_dims =
     concat (merge_loop dims_from_meta dims_from_meta guessed_dims [])"

text \<open>Iterating a string yields its characters as one-character strings.\<close>

definition chars :: "string \<Rightarrow> string list" where
  "chars s = map (\<lambda>d. [d]) s"

text \<open>
  \<open>_guess_tiff_dim_order\<close>.  The shape-only guess \<open>_guess_dim_order\<close> is inherited from the
  base class of another package; it is the parameter \<open>guess_dim_order\<close>, which may raise.
  \<^verbatim>\<open>
  scene = tiff.series[self.current_scene_index]
  dims_from_meta = scene.pages.axes
  if all(i not in UNKNOWN_DIM_CHARS for i in dims_from_meta):
      return [d for d in dims_from_meta]
  else:
      guessed_dims = Reader._guess_dim_order(scene.shape)
      return [d for d in self._merge_dim_guesses(dims_from_meta, guessed_dims)]
  \<close>
\<close>

definition guess_tiff_dim_order ::
  "(nat list \<Rightarrow> exn + string) \<Rightarrow> Reader \<Rightarrow> tiff_file \<Rightarrow> exn + string list" where
  "guess_tiff_dim_order guess_dim_order self tiff =
     (case list_get (series tiff) (current_scene_index self) of
        Inl e \<Rightarrow> Inl e
      | Inr scene \<Rightarrow>
          (let dims_from_meta = pages_axes scene in
           if list_all (\<lambda>i. [i] \<notin> set UNKNOWN_DIM_CHARS) dims_from_meta
           then Inr (chars dims_from_meta)
           else (case guess_dim_order (series_shape scene) of
                   Inl e \<Rightarrow> Inl e
                 | Inr guessed_dims \<Rightarrow>
                     Inr (chars (merge_dim_guesses dims_from_meta guessed_dims)))))"

section \<open>Scene identifiers and construction of the reader\<close>

text \<open>\<open>str(n)\<close> for a non-negative integer: its decimal digits.\<close>

definition digit :: "nat \<Rightarrow> char" where
  "digit n = char_of (48 + n)"

function str_of_nat :: "nat \<Rightarrow> string" where
  "str_of_nat n = (if n < 10 then [digit n] else str_of_nat (n div 10) @ [digit (n mod 10)])"
  by pat_completeness auto
termination
  by (relation "measure (\<lambda>n. n)") auto

definition generate_ome_image_id :: "nat \<Rightarrow> string" where
  "generate_ome_image_id image_id = ''Image:'' @ str_of_nat image_id"

text \<open>
  The property \<open>scenes\<close>: computed from the file on first use and kept in \<open>_scenes\<close>.
  It returns the scene identifiers together with the (possibly updated) reader.
\<close>

definition scenes :: "file_system \<Rightarrow> Reader \<Rightarrow> exn + (string list \<times> Reader)" where
  "scenes fs self =
     (case scenes_cache self of
        Some s \<Rightarrow> Inr (s, self)
      | None \<Rightarrow>
          (case fs_open fs (path self) of
             Inl e \<Rightarrow> Inl e
           | Inr open_resource \<Rightarrow>
               (case TiffFile open_resource of
                  Inl e \<Rightarrow> Inl e
                | Inr tiff \<Rightarrow>
                    (let s = map generate_ome_image_id [0..<length (series tiff)]
                     in Inr (s, self\<lparr>scenes_cache := Some s\<rparr>)))))"

text \<open>
  \<open>_is_supported_image\<close>: only \<open>TiffFileError\<close> and \<open>TypeError\<close> are turned into \<open>False\<close>;
  any other exception propagates.
\<close>

definition is_supported_image :: "file_system \<Rightarrow> string \<Rightarrow> exn + bool" where
  "is_supported_image fs p =
     (case (case fs_open fs p of
              Inl e \<Rightarrow> Inl e
            | Inr open_resource \<Rightarrow>
                (case TiffFile open_resource of Inl e \<Rightarrow> Inl e | Inr tiff \<Rightarrow> Inr True)) of
        Inl e \<Rightarrow> (if e = TiffFileError \<or> e = TypeError then Inr False else Inl e)
      | Inr b \<Rightarrow> Inr b)"

datatype log_record = OmeTiffHint

text \<open>
  The check of \<open>dim_order\<close> in the constructor:
  \<^verbatim>\<open>
  if isinstance(dim_order, list):
      if len(dim_order) != len(self.scenes):
          raise exceptions.ConflictingArgumentsError(...)
  \<close>
\<close>

definition check_dim_order :: "file_system \<Rightarrow> Reader \<Rightarrow> dim_order_arg \<Rightarrow> exn + Reader" where
  "check_dim_order fs self dim_order_given =
     (case dim_order_given of
        DimList ds \<Rightarrow>
          (case scenes fs self of
             Inl e \<Rightarrow> Inl e
           | Inr (s, self') \<Rightarrow>
               if length ds \<noteq> length s then Inl ConflictingArgumentsError else Inr self')
      | _ \<Rightarrow> Inr self)"

text \<open>
  The check of \<open>channel_names\<close>:
  \<^verbatim>\<open>
  if isinstance(channel_names, list):
      if len(channel_names) > 0 and isinstance(channel_names[0], list):
          if len(channel_names) != len(self.scenes):
              raise exceptions.ConflictingArgumentsError(...)
  \<close>
\<close>

definition check_channel_names ::
  "file_system \<Rightarrow> Reader \<Rightarrow> channel_names_arg \<Rightarrow> exn + Reader" where
  "check_channel_names fs self channel_names_given =
     (case channel_names_given of
        ChNested cs \<Rightarrow>
          (if length cs > 0 then
             (case scenes fs self of
                Inl e \<Rightarrow> Inl e
              | Inr (s, self') \<Rightarrow>
                  if length cs \<noteq> length s then Inl ConflictingArgumentsError else Inr self')
           else Inr self)
      | _ \<Rightarrow> Inr self)"

text \<open>
  \<open>Reader.__init__\<close>.  \<open>pathlike_to_fs\<close> with \<open>enforce_exists\<close> raises when nothing is stored
  at the path.  The reader under construction has only \<open>_fs\<close> and \<open>_path\<close> set while the
  checks run; the other attributes are assigned after them, so they are passed along and
  written at the end.  The result is the log output and the reader or the exception.
\<close>

definition init ::
  "file_system \<Rightarrow> string \<Rightarrow> chunk_dims_arg \<Rightarrow> dim_order_arg \<Rightarrow> channel_names_arg
     \<Rightarrow> log_record list \<times> (exn + Reader)" where
  "init fs image_path chunk_dims_given dim_order_given channel_names_given =
     (let log = (if sublist ''.ome.tif'' image_path then [OmeTiffHint] else []) in
      (log,
       (case fs image_path of
          None \<Rightarrow> Inl FileNotFoundError
        | Some c \<Rightarrow>
            (let self = \<lparr>path = image_path, chunk_dims = [], dim_order = DimNone,
                         channel_names = ChNone, scenes_cache = None,
                         physical_pixel_sizes_cache = None, current_scene_index = 0\<rparr>;
                 chunk_dims_list =
                   (case chunk_dims_given of ChunkStr s \<Rightarrow> chars s | ChunkList l \<Rightarrow> l)
             in case check_dim_order fs self dim_order_given of
                  Inl e \<Rightarrow> Inl e
                | Inr self1 \<Rightarrow>
                    (case check_channel_names fs self1 channel_names_given of
                       Inl e \<Rightarrow> Inl e
                     | Inr self2 \<Rightarrow>
                         (let self3 = self2\<lparr>chunk_dims := chunk_dims_list,
                                             dim_order := dim_order_given,
                                             channel_names := channel_names_given\<rparr>
                          in case is_supported_image fs (path self3) of
                               Inl e \<Rightarrow> Inl e
                             | Inr ok \<Rightarrow>
                                 if \<not> ok then Inl UnsupportedFileFormatError
                                 else Inr self3))))))"

section \<open>The delayed array\<close>

text \<open>
  The dimension names of the base package: spatial Y, spatial X and samples are the
  strings \<open>Y\<close>, \<open>X\<close> and \<open>S\<close>.
\<close>

definition REQUIRED_CHUNK_DIMS :: "string list" where
  "REQUIRED_CHUNK_DIMS = [''Y'', ''X'', ''S'']"

text \<open>
  \<open>str.upper\<close> on the ASCII range: a lower-case letter moves to its capital, every other
  character stays.  Labels outside ASCII are not modelled.
\<close>

definition upper_char :: "char \<Rightarrow> char" where
  "upper_char c =
     (let n = (of_char c :: nat) in if 97 \<le> n \<and> n \<le> 122 then char_of (n - 32) else c)"

definition upper :: "string \<Rightarrow> string" where
  "upper s = map upper_char s"

text \<open>
  The loop that appends each required dimension missing from \<open>chunk_dims\<close>:
  \<^verbatim>\<open>
  for dim in dimensions.REQUIRED_CHUNK_DIMS:
      if dim not in self.chunk_dims:
          self.chunk_dims.append(dim)
  \<close>
  The append also acts on the list object the caller handed to the constructor; only
  the attribute of the reader is modelled.
\<close>

fun add_required_dims :: "string list \<Rightarrow> string list \<Rightarrow> string list" where
  "add_required_dims [] chunk_dims_now = chunk_dims_now"
| "add_required_dims (d # rest) chunk_dims_now =
     add_required_dims rest
       (if d \<notin> set chunk_dims_now then chunk_dims_now @ [d] else chunk_dims_now)"

text \<open>
  The loop over \<open>zip(selected_scene_dims, selected_scene.shape)\<close>; the accumulator holds
  \<open>non_chunk_dim_order\<close>, \<open>non_chunk_shape\<close>, \<open>chunk_dim_order\<close> and \<open>chunk_shape\<close>.
  \<^verbatim>\<open>
  for dim, size in zip(selected_scene_dims, selected_scene.shape):
      if dim in self.chunk_dims:
          chunk_dim_order.append(dim)
          chunk_shape.append(size)
      else:
          non_chunk_dim_order.append(dim)
          non_chunk_shape.append(size)
  \<close>
\<close>

fun split_dims ::
  "(char \<times> nat) list \<Rightarrow> string list \<Rightarrow> string \<times> nat list \<times> string \<times> nat list
     \<Rightarrow> string \<times> nat list \<times> string \<times> nat list" where
  "split_dims [] cds acc = acc"
| "split_dims ((d, sz) # rest) cds (ncd, ncs, cd, cs) =
     (if [d] \<in> set cds
      then split_dims rest cds (ncd, ncs, cd @ [d], cs @ [sz])
      else split_dims rest cds (ncd @ [d], ncs @ [sz], cd, cs))"

text \<open>\<open>str.find\<close>: the first index of a character, \<open>-1\<close> when it does not occur.\<close>

fun find_from :: "string \<Rightarrow> char \<Rightarrow> int \<Rightarrow> int" where
  "find_from [] c i = - 1"
| "find_from (x # xs) c i = (if x = c then i else find_from xs c (i + 1))"

definition str_find :: "string \<Rightarrow> char \<Rightarrow> int" where
  "str_find s c = find_from s c 0"

text \<open>\<open>list.index\<close>: the first index of an element, \<open>ValueError\<close> when it does not occur.\<close>

fun index_from :: "'a list \<Rightarrow> 'a \<Rightarrow> int \<Rightarrow> exn + int" where
  "index_from [] d i = Inl ValueError"
| "index_from (x # xs) d i = (if x = d then Inr i else index_from xs d (i + 1))"

definition list_index :: "'a list \<Rightarrow> 'a \<Rightarrow> exn + int" where
  "list_index xs d = index_from xs d 0"

text \<open>A loop that appends \<open>f x\<close> for each \<open>x\<close> and stops at the first exception.\<close>

fun map_exn :: "('a \<Rightarrow> exn + 'b) \<Rightarrow> 'a list \<Rightarrow> exn + 'b list" where
  "map_exn f [] = Inr []"
| "map_exn f (x # xs) =
     (case f x of
        Inl e \<Rightarrow> Inl e
      | Inr y \<Rightarrow> (case map_exn f xs of Inl e \<Rightarrow> Inl e | Inr ys \<Rightarrow> Inr (y # ys)))"

text \<open>
  The dictionary \<open>match_map\<close> built by the comprehension (a later entry for the same key
  replaces an earlier one), and subscripting it.
\<close>

definition match_map :: "string \<Rightarrow> char \<Rightarrow> int option" where
  "match_map selected_scene_dims =
     map_of (rev (map (\<lambda>d. (d, str_find selected_scene_dims d)) selected_scene_dims))"

definition dict_item :: "('k \<Rightarrow> 'v option) \<Rightarrow> 'k \<Rightarrow> exn + 'v" where
  "dict_item m k = (case m k of None \<Rightarrow> Inl KeyError | Some v \<Rightarrow> Inr v)"

text \<open>\<open>enumerate\<close>.\<close>

definition enumerate_py :: "'a list \<Rightarrow> (int \<times> 'a) list" where
  "enumerate_py xs = zip (map int [0..<length xs]) xs"

text \<open>All index tuples of an array of the given shape, in row-major order (\<open>np.ndenumerate\<close>).\<close>

fun ndindex :: "nat list \<Rightarrow> nat list list" where
  "ndindex [] = [[]]"
| "ndindex (n # ns) = concat (map (\<lambda>i. map ((#) i) (ndindex ns)) [0..<n])"

datatype index = Idx nat | FullSlice

text \<open>The arguments of one delayed call of \<open>_get_image_data\<close>, with the declared shape and dtype.\<close>

record lazy_block =
  block_path :: string
  block_scene :: nat
  retrieve_indices :: "index list"
  block_transpose_indices :: "int list"
  block_shape :: "nat list"
  block_dtype :: string

text \<open>
  The delayed array is \<open>da.transpose(da.block(lazy_arrays), transpose_indices)\<close>.  It is
  represented by the values that determine it: the grid of delayed blocks, each with
  its index tuple, and the local variables from which the grid and the final transpose
  are built.
\<close>

record delayed_array =
  non_chunk_dim_order :: string
  non_chunk_shape :: "nat list"
  chunk_dim_order :: string
  chunk_shape :: "nat list"
  blocked_dim_order :: string
  blocked_shape :: "nat list"
  transposer :: "int list"
  lazy_arrays :: "(nat list \<times> lazy_block) list"
  transpose_indices :: "int list"

text \<open>
  \<open>_create_dask_array\<close>.  The reader is returned too, because \<open>chunk_dims\<close> is assigned
  before anything can raise.  After the two statements on \<open>chunk_dims\<close> the source reads
  \<^verbatim>\<open>
  selected_scene = tiff.series[self.current_scene_index]
  selected_scene_dims = "".join(selected_scene_dims_list)
  if len(selected_scene.shape) != len(selected_scene_dims):
      raise exceptions.ConflictingArgumentsError(...)
  ...
  blocked_dim_order = non_chunk_dim_order + chunk_dim_order
  blocked_shape = tuple(non_chunk_shape) + ((1,) * len(chunk_shape))
  match_map = {dim: selected_scene_dims.find(dim) for dim in selected_scene_dims}
  transposer = []
  for dim in blocked_dim_order:
      transposer.append(match_map[dim])
  ...
  transpose_indices = []
  for i, d in enumerate(selected_scene_dims):
      new_index = blocked_dim_order.index(d)
      if new_index != i:
          transpose_indices.append(new_index)
      else:
          transpose_indices.append(i)
  image_data = da.transpose(image_data, tuple(transpose_indices))
  \<close>
\<close>

definition create_dask_array ::
  "Reader \<Rightarrow> tiff_file \<Rightarrow> string list \<Rightarrow> Reader \<times> (exn + delayed_array)" where
  "create_dask_array self0 tiff selected_scene_dims_list =
     (let self = self0\<lparr>chunk_dims :=
                   map upper (add_required_dims REQUIRED_CHUNK_DIMS (chunk_dims self0))\<rparr>
      in (self,
          (case list_get (series tiff) (current_scene_index self) of
             Inl e \<Rightarrow> Inl e
           | Inr selected_scene \<Rightarrow>
               (let selected_scene_dims = concat selected_scene_dims_list in
                if length (series_shape selected_scene) \<noteq> length selected_scene_dims
                then Inl ConflictingArgumentsError
                else
                  (case split_dims (zip selected_scene_dims (series_shape selected_scene))
                          (chunk_dims self) ([], [], [], []) of
                     (ncd, ncs, cd, cs) \<Rightarrow>
                       (let blocked = ncd @ cd;
                            bshape = ncs @ replicate (length cs) 1
                        in case map_exn (dict_item (match_map selected_scene_dims)) blocked of
                             Inl e \<Rightarrow> Inl e
                           | Inr tr \<Rightarrow>
                               (let grid =
                                      map (\<lambda>np_index.
                                             (np_index,
                                              \<lparr>block_path = path self,
                                               block_scene = current_scene_index self,
                                               retrieve_indices =
                                                 map Idx (take (length ncs) np_index)
                                                   @ replicate (length cs) FullSlice,
                                               block_transpose_indices = tr,
                                               block_shape = cs,
                                               block_dtype = series_dtype selected_scene\<rparr>))
                                          (ndindex bshape)
                                in case map_exn
                                          (\<lambda>(i, d).
                                             case list_index blocked d of
                                               Inl e \<Rightarrow> Inl e
                                             | Inr new_index \<Rightarrow>
                                                 Inr (if new_index \<noteq> i then new_index else i))
                                          (enumerate_py selected_scene_dims) of
                                     Inl e \<Rightarrow> Inl e
                                   | Inr ti \<Rightarrow>
                                       Inr \<lparr>non_chunk_dim_order = ncd,
                                            non_chunk_shape = ncs,
                                            chunk_dim_order = cd,
                                            chunk_shape = cs,
                                            blocked_dim_order = blocked,
                                            blocked_shape = bshape,
                                            transposer = tr,
                                            lazy_arrays = grid,
                                            transpose_indices = ti\<rparr>)))))))"


section \<open>Physical pixel sizes\<close>

text \<open>
  A key of the unit table: a unit name, a \<open>RESUNIT\<close> member (by its integer code:
  \<open>NONE\<close> 1, \<open>INCH\<close> 2, \<open>CENTIMETER\<close> 3, \<open>MILLIMETER\<close> 4, \<open>MICROMETER\<close> 5) or \<open>None\<close>.
\<close>

datatype unit_key = Name string | Code int | NoneKey

text \<open>
  \<open>_NAME_TO_MICRONS\<close>, in the order of the source.  Strings are byte strings, so the
  micro sign is its two UTF-8 bytes.  The factors are exact reals; the rounding of the
  floating-point arithmetic of the source is not modelled.
\<close>

definition NAME_TO_MICRONS :: "(unit_key \<times> real) list" where
  "NAME_TO_MICRONS =
     [(Name ''pm'', 1 / 10 ^ 6),
      (Name ''picometer'', 1 / 10 ^ 6),
      (Name ''nm'', 1 / 10 ^ 3),
      (Name ''nanometer'', 1 / 10 ^ 3),
      (Name ''micron'', 1),
      (Name [CHR 0xC2, CHR 0xB5, CHR ''m''], 1),
      (Name ''um'', 1),
      (Name (CHR 0x5C # ''u00B5m''), 1),
      (Code 1, 1),
      (Code 5, 1),
      (NoneKey, 1),
      (Name ''mm'', 10 ^ 3),
      (Name ''millimeter'', 10 ^ 3),
      (Code 4, 10 ^ 3),
      (Name ''cm'', 10 ^ 4),
      (Name ''centimeter'', 10 ^ 4),
      (Code 3, 10 ^ 4),
      (Name ''cal'', 2.54 * 10 ^ 4),
      (Code 2, 2.54 * 10 ^ 4)]"

text \<open>\<open>dict.get(key, default)\<close>.\<close>

definition dict_get :: "('k \<times> 'v) list \<Rightarrow> 'k \<Rightarrow> 'v \<Rightarrow> 'v" where
  "dict_get table k default_value =
     (case map_of table k of None \<Rightarrow> default_value | Some v \<Rightarrow> v)"

text \<open>Subscripting the tags of a page.\<close>

definition tag_item :: "'v option \<Rightarrow> exn + 'v" where
  "tag_item t = (case t of None \<Rightarrow> Inl KeyError | Some v \<Rightarrow> Inr v)"

text \<open>
  The unit and the Z spacing: from the ImageJ metadata of an ImageJ file, otherwise from
  the \<open>ResolutionUnit\<close> tag with no Z spacing.
\<close>

definition unit_and_z_size ::
  "tiff_file \<Rightarrow> page_tags \<Rightarrow> exn + (unit_key \<times> real option)" where
  "unit_and_z_size tiff tags =
     (if is_imagej tiff then
        (case imagej_metadata tiff of
           None \<Rightarrow> Inl TypeError
         | Some meta \<Rightarrow>
             (case tag_item (ij_unit meta) of
                Inl e \<Rightarrow> Inl e
              | Inr u \<Rightarrow> Inr (Name u, ij_spacing meta)))
      else
        (case tag_item (ResolutionUnit tags) of
           Inl e \<Rightarrow> Inl e
         | Inr u \<Rightarrow> Inr (Code u, None)))"

text \<open>True division: \<open>ZeroDivisionError\<close> on a zero divisor.\<close>

definition true_div :: "real \<Rightarrow> int \<Rightarrow> exn + real" where
  "true_div a b = (if b = 0 then Inl ZeroDivisionError else Inr (a / real_of_int b))"

text \<open>
  \<open>_get_pixel_size\<close>: the sizes (z, y, x) in microns.
  \<^verbatim>\<open>
  with TiffFile(path_or_file, is_mmstack=False) as tiff:
      tags = tiff.series[series_index].pages[0].tags
  if tiff.is_imagej:
      unit = tiff.imagej_metadata["unit"]
      z_size = tiff.imagej_metadata.get("spacing", None)
  else:
      unit = tags["ResolutionUnit"].value
      z_size = None
  scalar = _NAME_TO_MICRONS.get(unit, 1)
  x_npix, x_res_units = tags["XResolution"].value
  y_npix, y_res_units = tags["YResolution"].value
  x_size = scalar * x_res_units / x_npix
  y_size = scalar * y_res_units / y_npix
  if z_size is not None:
      z_size *= scalar
  return z_size, y_size, x_size
  \<close>
\<close>

definition get_pixel_size :: "file_content \<Rightarrow> nat \<Rightarrow> exn + pixel_sizes" where
  "get_pixel_size path_or_file series_index =
     (case TiffFile path_or_file of
        Inl e \<Rightarrow> Inl e
      | Inr tiff \<Rightarrow>
          (case list_get (series tiff) series_index of
             Inl e \<Rightarrow> Inl e
           | Inr scene \<Rightarrow>
               (let tags = first_page_tags scene in
                case unit_and_z_size tiff tags of
                  Inl e \<Rightarrow> Inl e
                | Inr (unit_token, z_size) \<Rightarrow>
                    (let scalar = dict_get NAME_TO_MICRONS unit_token 1 in
                     case tag_item (XResolution tags) of
                       Inl e \<Rightarrow> Inl e
                     | Inr (x_npix, x_res_units) \<Rightarrow>
                         (case tag_item (YResolution tags) of
                            Inl e \<Rightarrow> Inl e
                          | Inr (y_npix, y_res_units) \<Rightarrow>
                              (case true_div (scalar * real_of_int x_res_units) x_npix of
                                 Inl e \<Rightarrow> Inl e
                               | Inr x_size \<Rightarrow>
                                   (case true_div (scalar * real_of_int y_res_units) y_npix of
                                      Inl e \<Rightarrow> Inl e
                                    | Inr y_size \<Rightarrow>
                                        Inr (map_option (\<lambda>z. z * scalar) z_size,
                                             Some y_size, Some x_size))))))))"

datatype warning = CouldNotParseTiffPixelSize exn

text \<open>
  The property \<open>physical_pixel_sizes\<close>: the value, the reader with its cache, and the
  warnings issued.  Opening the file happens outside the \<open>try\<close>.
  \<^verbatim>\<open>
  if self._physical_pixel_sizes is None:
      with self._fs.open(self._path) as open_resource:
          try:
              z_size, y_size, x_size = _get_pixel_size(
                  open_resource, self._current_scene_index)
          except Exception as e:
              warnings.warn(f"Could not parse tiff pixel size: {e}")
              z_size, y_size, x_size = None, None, None
      self._physical_pixel_sizes = types.PhysicalPixelSizes(z_size, y_size, x_size)
  return self._physical_pixel_sizes
  \<close>
\<close>

definition physical_pixel_sizes ::
  "file_system \<Rightarrow> Reader \<Rightarrow> (exn + pixel_sizes) \<times> Reader \<times> warning list" where
  "physical_pixel_sizes fs self =
     (case physical_pixel_sizes_cache self of
        Some sizes \<Rightarrow> (Inr sizes, self, [])
      | None \<Rightarrow>
          (case fs_open fs (path self) of
             Inl e \<Rightarrow> (Inl e, self, [])
           | Inr open_resource \<Rightarrow>
               (case (case get_pixel_size open_resource (current_scene_index self) of
                        Inr sizes \<Rightarrow> (sizes, [])
                      | Inl e \<Rightarrow> ((None, None, None), [CouldNotParseTiffPixelSize e])) of
                  (sizes, warnings) \<Rightarrow>
                    (Inr sizes, self\<lparr>physical_pixel_sizes_cache := Some sizes\<rparr>, warnings))))"

section \<open>Example inputs\<close>

text \<open>Concrete readers, files and tags at which the properties below are instantiated.\<close>

definition ex_reader :: Reader where
  "ex_reader = \<lparr>path = ''a.tif'', chunk_dims = [''Z'', ''Y'', ''X'', ''S''], dim_order = DimNone,
     channel_names = ChNone, scenes_cache = None, physical_pixel_sizes_cache = None,
     current_scene_index = 0\<rparr>"

definition no_tags :: page_tags where
  "no_tags = \<lparr>ResolutionUnit = None, XResolution = None, YResolution = None\<rparr>"

definition ex_series :: "string \<Rightarrow> nat list \<Rightarrow> tiff_series" where
  "ex_series ax sh = \<lparr>pages_axes = ax, series_shape = sh, series_dtype = ''uint16'',
       first_page_tags = no_tags\<rparr>"

definition ex_tiff :: "string \<Rightarrow> nat list \<Rightarrow> tiff_file" where
  "ex_tiff ax sh = \<lparr>series = [ex_series ax sh], imagej_metadata = None\<rparr>"

definition ex_reader_chunks :: "string list \<Rightarrow> Reader" where
  "ex_reader_chunks cds = ex_reader\<lparr>chunk_dims := cds\<rparr>"

definition ex_tags :: "int option \<Rightarrow> (int \<times> int) option \<Rightarrow> (int \<times> int) option \<Rightarrow> page_tags" where
  "ex_tags u x y = \<lparr>ResolutionUnit = u, XResolution = x, YResolution = y\<rparr>"

definition ex_tagged_tiff :: "page_tags \<Rightarrow> imagej_meta option \<Rightarrow> tiff_file" where
  "ex_tagged_tiff tags ij =
     \<lparr>series = [\<lparr>pages_axes = ''YX'', series_shape = [512, 512], series_dtype = ''uint16'',
                 first_page_tags = tags\<rparr>],
      imagej_metadata = ij\<rparr>"

definition ex_two_scenes :: tiff_file where
  "ex_two_scenes = \<lparr>series = [ex_series ''YX'' [4, 5], ex_series ''CYX'' [3, 4, 5]],
                     imagej_metadata = None\<rparr>"

definition ex_fs :: "file_content \<Rightarrow> file_system" where
  "ex_fs c = (\<lambda>p. if p = ''a.tif'' then Some c else None)"


section \<open>Properties of dimension inference\<close>

text \<open>The placeholder test of the source, spelled out.\<close>

lemma known_char_iff: "[c] \<notin> set UNKNOWN_DIM_CHARS \<longleftrightarrow> c \<noteq> CHR ''Q'' \<and> c \<noteq> CHR ''I''"
  by (auto simp: UNKNOWN_DIM_CHARS_def)

lemma concat_chars: "concat (chars s) = s"
  by (induction s) (simp_all add: chars_def)

lemma length_chars: "length (chars s) = length s"
  by (simp add: chars_def)

lemma merge_loop_known:
  "\<forall>c\<in>set ds. [c] \<notin> set UNKNOWN_DIM_CHARS \<Longrightarrow>
   merge_loop ds meta guessed best = best @ chars ds"
  by (induction ds arbitrary: best) (simp_all add: chars_def)

lemma merge_dim_guesses_known:
  "\<forall>c\<in>set ds. [c] \<notin> set UNKNOWN_DIM_CHARS \<Longrightarrow> merge_dim_guesses ds guessed = ds"
  by (simp add: merge_dim_guesses_def merge_loop_known concat_chars)




lemma chars_nth: "i < length s \<Longrightarrow> chars s ! i = [s ! i]"
  by (simp add: chars_def)

lemma guess_tiff_dim_order_is_chars:
  "guess_tiff_dim_order G self tiff = Inr out \<Longrightarrow> \<exists>s. out = chars s"
  by (auto simp: guess_tiff_dim_order_def Let_def split: sum.splits if_splits)

lemma guess_tiff_dim_order_known:
  assumes "list_get (series tiff) (current_scene_index self) = Inr scene"
    and "\<forall>c\<in>set (pages_axes scene). [c] \<notin> set UNKNOWN_DIM_CHARS"
  shows "guess_tiff_dim_order G self tiff = Inr (chars (pages_axes scene))"
  using assms by (simp add: guess_tiff_dim_order_def list_all_iff)


text \<open>
  C3.  When no character of the axis hint of the scene is a placeholder (\<open>Q\<close> or \<open>I\<close>, the
  entries of \<open>UNKNOWN_DIM_CHARS\<close>), inference returns the hint unchanged, one label per
  position, without consulting the shape-only guess, and merging such a hint with any
  guess returns the hint.  Consequently inference is idempotent on placeholder-free
  output: whatever inference returned, if it contains no placeholder, running inference
  on a scene whose hint is that output returns the same output.
\<close>

theorem guess_tiff_dim_order_placeholder_free:
  assumes scene: "list_get (series tiff) (current_scene_index self) = Inr scene"
    and scene': "list_get (series tiff') (current_scene_index self') = Inr scene'"
  shows "((\<forall>c\<in>set (pages_axes scene). [c] \<notin> set UNKNOWN_DIM_CHARS) \<longrightarrow>
            guess_tiff_dim_order guess_dim_order self tiff = Inr (chars (pages_axes scene))
          \<and> concat (chars (pages_axes scene)) = pages_axes scene
          \<and> length (chars (pages_axes scene)) = length (pages_axes scene)
          \<and> (\<forall>i < length (pages_axes scene). chars (pages_axes scene) ! i = [pages_axes scene ! i])
          \<and> merge_dim_guesses (pages_axes scene) guessed_dims = pages_axes scene)
       \<and> (\<forall>out. guess_tiff_dim_order guess_dim_order self tiff = Inr out
                \<and> (\<forall>c\<in>set (concat out). [c] \<notin> set UNKNOWN_DIM_CHARS)
                \<and> pages_axes scene' = concat out
              \<longrightarrow> guess_tiff_dim_order guess_dim_order' self' tiff' = Inr out)"
proof (intro conjI impI allI)
  assume known: "\<forall>c\<in>set (pages_axes scene). [c] \<notin> set UNKNOWN_DIM_CHARS"
  show "guess_tiff_dim_order guess_dim_order self tiff = Inr (chars (pages_axes scene))"
    using scene known by (rule guess_tiff_dim_order_known)
  show "concat (chars (pages_axes scene)) = pages_axes scene"
    by (rule concat_chars)
  show "length (chars (pages_axes scene)) = length (pages_axes scene)"
    by (rule length_chars)
  show "chars (pages_axes scene) ! i = [pages_axes scene ! i]" if "i < length (pages_axes scene)" for i
    using that by (rule chars_nth)
  show "merge_dim_guesses (pages_axes scene) guessed_dims = pages_axes scene"
    using known by (rule merge_dim_guesses_known)
next
  fix out
  assume a: "guess_tiff_dim_order guess_dim_order self tiff = Inr out
      \<and> (\<forall>c\<in>set (concat out). [c] \<notin> set UNKNOWN_DIM_CHARS)
      \<and> pages_axes scene' = concat out"
  then obtain s where s: "out = chars s"
    using guess_tiff_dim_order_is_chars by blast
  from a have "\<forall>c\<in>set (pages_axes scene'). [c] \<notin> set UNKNOWN_DIM_CHARS"
    by simp
  with scene' have "guess_tiff_dim_order guess_dim_order' self' tiff' = Inr (chars (pages_axes scene'))"
    by (rule guess_tiff_dim_order_known)
  then show "guess_tiff_dim_order guess_dim_order' self' tiff' = Inr out"
    using a s by (simp add: concat_chars)
qed

lemma ex_scene: "list_get (series (ex_tiff ax sh)) (current_scene_index ex_reader) = Inr (ex_series ax sh)"
  by (simp add: list_get_def ex_tiff_def ex_reader_def)

theorem guess_tiff_dim_order_placeholder_free_witness:
  "list_get (series (ex_tiff ''TCZYX'' [1, 2, 3, 4, 5])) (current_scene_index ex_reader)
     = Inr (ex_series ''TCZYX'' [1, 2, 3, 4, 5])
   \<and> list_all (\<lambda>c. [c] \<notin> set UNKNOWN_DIM_CHARS) ''TCZYX''
   \<and> guess_tiff_dim_order (\<lambda>sh. Inl (External ''unused'')) ex_reader
        (ex_tiff ''TCZYX'' [1, 2, 3, 4, 5]) = Inr [''T'', ''C'', ''Z'', ''Y'', ''X'']
   \<and> merge_dim_guesses ''TCZYX'' ''ABCDE'' = ''TCZYX''
   \<and> guess_tiff_dim_order (\<lambda>sh. Inr ''ABCDE'') ex_reader
        (ex_tiff ''TCZYX'' [5, 4, 3, 2, 1]) = Inr [''T'', ''C'', ''Z'', ''Y'', ''X'']"
proof -
  have h: "list_get (series (ex_tiff ''TCZYX'' [1, 2, 3, 4, 5])) (current_scene_index ex_reader)
     = Inr (ex_series ''TCZYX'' [1, 2, 3, 4, 5])" by (rule ex_scene)
  have h': "list_get (series (ex_tiff ''TCZYX'' [5, 4, 3, 2, 1])) (current_scene_index ex_reader)
     = Inr (ex_series ''TCZYX'' [5, 4, 3, 2, 1])" by (rule ex_scene)
  have ax: "pages_axes (ex_series ''TCZYX'' sh) = ''TCZYX''" for sh
    by (simp add: ex_series_def)
  have k: "\<forall>c\<in>set ''TCZYX''. [c] \<notin> set UNKNOWN_DIM_CHARS"
    by (simp add: UNKNOWN_DIM_CHARS_def)
  have known: "\<forall>c\<in>set (pages_axes (ex_series ''TCZYX'' [1, 2, 3, 4, 5])).
      [c] \<notin> set UNKNOWN_DIM_CHARS"
    using k by (simp only: ax)
  note t = guess_tiff_dim_order_placeholder_free [OF h h',
      where guess_dim_order = "\<lambda>sh. Inl (External ''unused'')"
        and guess_dim_order' = "\<lambda>sh. Inr ''ABCDE''" and guessed_dims = "''ABCDE''"]
  note t1 = t [THEN conjunct1, THEN mp, OF known]
  have c: "chars (pages_axes (ex_series ''TCZYX'' sh)) = [''T'', ''C'', ''Z'', ''Y'', ''X'']" for sh
    by (simp add: ex_series_def chars_def)
  have 1: "guess_tiff_dim_order (\<lambda>sh. Inl (External ''unused'')) ex_reader
        (ex_tiff ''TCZYX'' [1, 2, 3, 4, 5]) = Inr [''T'', ''C'', ''Z'', ''Y'', ''X'']"
    using t1 [THEN conjunct1] by (simp only: c)
  have 2: "merge_dim_guesses ''TCZYX'' ''ABCDE'' = ''TCZYX''"
    using t1 [THEN conjunct2, THEN conjunct2, THEN conjunct2, THEN conjunct2] by (simp only: ax)
  have cc: "concat [''T'', ''C'', ''Z'', ''Y'', ''X''] = ''TCZYX''" by simp
  have pre: "guess_tiff_dim_order (\<lambda>sh. Inl (External ''unused'')) ex_reader
        (ex_tiff ''TCZYX'' [1, 2, 3, 4, 5]) = Inr [''T'', ''C'', ''Z'', ''Y'', ''X'']
      \<and> (\<forall>c\<in>set (concat [''T'', ''C'', ''Z'', ''Y'', ''X'']). [c] \<notin> set UNKNOWN_DIM_CHARS)
      \<and> pages_axes (ex_series ''TCZYX'' [5, 4, 3, 2, 1]) = concat [''T'', ''C'', ''Z'', ''Y'', ''X'']"
    using 1 k by (simp only: ax cc simp_thms)
  have 3: "guess_tiff_dim_order (\<lambda>sh. Inr ''ABCDE'') ex_reader
        (ex_tiff ''TCZYX'' [5, 4, 3, 2, 1]) = Inr [''T'', ''C'', ''Z'', ''Y'', ''X'']"
    using t [THEN conjunct2, THEN spec, THEN mp, OF pre] .
  have k': "list_all (\<lambda>c. [c] \<notin> set UNKNOWN_DIM_CHARS) ''TCZYX''"
    using k by (simp only: list_all_iff)
  show ?thesis by (intro conjI h k' 1 2 3)
qed



section \<open>Properties of the delayed array\<close>













lemma create_dask_array_fst:
  "fst (create_dask_array self tiff dims_list)
     = self\<lparr>chunk_dims := map upper (add_required_dims REQUIRED_CHUNK_DIMS (chunk_dims self))\<rparr>"
  by (simp add: create_dask_array_def Let_def)

lemma create_dask_array_mismatch:
  assumes "list_get (series tiff) (current_scene_index self) = Inr scene"
    and "length (series_shape scene) \<noteq> length (concat dims_list)"
  shows "snd (create_dask_array self tiff dims_list) = Inl ConflictingArgumentsError"
  using assms by (simp add: create_dask_array_def Let_def)







lemma upper_required: "d \<in> set REQUIRED_CHUNK_DIMS \<Longrightarrow> upper d = d"
  by (auto simp: REQUIRED_CHUNK_DIMS_def upper_def upper_char_def)

lemma upper_char_idem: "upper_char (upper_char c) = upper_char c"
proof -
  have "of_char c < (256::nat)" by (rule nat_of_char_less_256)
  then show ?thesis
    by (auto simp: upper_char_def Let_def)
qed

lemma upper_idem: "upper (upper s) = upper s"
  by (simp add: upper_def upper_char_idem)

lemma set_add_required_dims: "set (add_required_dims req cds) = set req \<union> set cds"
  by (induction req arbitrary: cds) auto

lemma add_required_dims_closed:
  "distinct req \<Longrightarrow> add_required_dims req cds = cds @ filter (\<lambda>d. d \<notin> set cds) req"
proof (induction req arbitrary: cds)
  case Nil
  then show ?case by simp
next
  case (Cons d req)
  then have d: "d \<notin> set req" and dr: "distinct req" by simp_all
  have f: "filter (\<lambda>x. x \<notin> set (cds @ [d])) req = filter (\<lambda>x. x \<notin> set cds) req"
    using d by (intro filter_cong) auto
  show ?case using Cons.IH [OF dr] f by simp
qed

lemma distinct_REQUIRED: "distinct REQUIRED_CHUNK_DIMS"
  by (simp add: REQUIRED_CHUNK_DIMS_def)

lemma required_in_chunk_dims:
  "d \<in> set REQUIRED_CHUNK_DIMS \<Longrightarrow>
   d \<in> set (chunk_dims (fst (create_dask_array self tiff dims_list)))"
proof -
  assume d: "d \<in> set REQUIRED_CHUNK_DIMS"
  then have "d \<in> set (add_required_dims REQUIRED_CHUNK_DIMS (chunk_dims self))"
    by (simp add: set_add_required_dims)
  then have "upper d \<in> set (map upper (add_required_dims REQUIRED_CHUNK_DIMS (chunk_dims self)))"
    by simp
  then show ?thesis using d by (simp add: create_dask_array_fst upper_required)
qed








text \<open>
  C8.  When the number of resolved axis labels differs from the number of axes of the
  shape of the scene, \<open>_create_dask_array\<close> raises \<open>ConflictingArgumentsError\<close> and
  yields no array.
\<close>

theorem create_dask_array_shape_mismatch:
  assumes "list_get (series tiff) (current_scene_index self) = Inr scene"
    and "length (concat dims_list) \<noteq> length (series_shape scene)"
  shows "snd (create_dask_array self tiff dims_list) = Inl ConflictingArgumentsError"
  using assms by (intro create_dask_array_mismatch) auto

theorem create_dask_array_shape_mismatch_witness:
  "list_get (series (ex_tiff ''YX'' [3, 512, 512])) (current_scene_index ex_reader)
     = Inr (ex_series ''YX'' [3, 512, 512])
   \<and> length (concat [''Y'', ''X'']) \<noteq> length (series_shape (ex_series ''YX'' [3, 512, 512]))
   \<and> snd (create_dask_array ex_reader (ex_tiff ''YX'' [3, 512, 512]) [''Y'', ''X''])
       = Inl ConflictingArgumentsError"
proof -
  have h: "list_get (series (ex_tiff ''YX'' [3, 512, 512])) (current_scene_index ex_reader)
     = Inr (ex_series ''YX'' [3, 512, 512])" by (rule ex_scene)
  have l: "length (concat [''Y'', ''X'']) \<noteq> length (series_shape (ex_series ''YX'' [3, 512, 512]))"
    by (simp add: ex_series_def)
  show ?thesis
    by (intro conjI h l create_dask_array_shape_mismatch [OF h l])
qed

text \<open>
  C10.  A call of \<open>_create_dask_array\<close> leaves the reader with \<open>chunk_dims\<close> replaced by
  the upper-cased list extended with the required dimensions that were missing, whether
  or not the call raises; the new list contains \<open>Y\<close>, \<open>X\<close> and \<open>S\<close> and is all upper
  case; it differs from the supplied list exactly when a required dimension was missing
  or an entry was not upper case; every other attribute of the reader is unchanged; and
  a further call leaves the normalized reader as it is.
\<close>

theorem create_dask_array_normalizes_chunk_dims:
  "fst (create_dask_array self tiff dims_list)
     = self\<lparr>chunk_dims :=
              map upper (chunk_dims self
                         @ filter (\<lambda>d. d \<notin> set (chunk_dims self)) REQUIRED_CHUNK_DIMS)\<rparr>
   \<and> set REQUIRED_CHUNK_DIMS \<subseteq> set (chunk_dims (fst (create_dask_array self tiff dims_list)))
   \<and> (\<forall>d\<in>set (chunk_dims (fst (create_dask_array self tiff dims_list))). upper d = d)
   \<and> (chunk_dims (fst (create_dask_array self tiff dims_list)) \<noteq> chunk_dims self
        \<longleftrightarrow> \<not> set REQUIRED_CHUNK_DIMS \<subseteq> set (chunk_dims self)
            \<or> (\<exists>d\<in>set (chunk_dims self). upper d \<noteq> d))
   \<and> path (fst (create_dask_array self tiff dims_list)) = path self
   \<and> dim_order (fst (create_dask_array self tiff dims_list)) = dim_order self
   \<and> channel_names (fst (create_dask_array self tiff dims_list)) = channel_names self
   \<and> scenes_cache (fst (create_dask_array self tiff dims_list)) = scenes_cache self
   \<and> physical_pixel_sizes_cache (fst (create_dask_array self tiff dims_list))
       = physical_pixel_sizes_cache self
   \<and> current_scene_index (fst (create_dask_array self tiff dims_list))
       = current_scene_index self
   \<and> fst (create_dask_array (fst (create_dask_array self tiff dims_list)) tiff' dims_list')
       = fst (create_dask_array self tiff dims_list)"
proof -
  let ?r = "fst (create_dask_array self tiff dims_list)"
  let ?new = "map upper (chunk_dims self
                @ filter (\<lambda>d. d \<notin> set (chunk_dims self)) REQUIRED_CHUNK_DIMS)"
  have cl: "add_required_dims REQUIRED_CHUNK_DIMS cds
              = cds @ filter (\<lambda>d. d \<notin> set cds) REQUIRED_CHUNK_DIMS" for cds
    using distinct_REQUIRED by (rule add_required_dims_closed)
  have eq: "?r = self\<lparr>chunk_dims := ?new\<rparr>"
    by (simp only: create_dask_array_fst cl)
  have cd: "chunk_dims ?r = ?new" by (simp add: eq)
  have req: "set REQUIRED_CHUNK_DIMS \<subseteq> set (chunk_dims ?r)"
    using required_in_chunk_dims by blast
  have up: "\<forall>d\<in>set (chunk_dims ?r). upper d = d"
    unfolding cd by (auto simp: upper_idem)
  have same: "?new = chunk_dims self"
    if "set REQUIRED_CHUNK_DIMS \<subseteq> set (chunk_dims self)" "\<forall>d\<in>set (chunk_dims self). upper d = d"
  proof -
    have "filter (\<lambda>d. d \<notin> set (chunk_dims self)) REQUIRED_CHUNK_DIMS = []"
      using that(1) by (auto simp: filter_empty_conv)
    then show ?thesis using that(2) by (simp add: map_idI)
  qed
  have diff: "chunk_dims ?r \<noteq> chunk_dims self
        \<longleftrightarrow> \<not> set REQUIRED_CHUNK_DIMS \<subseteq> set (chunk_dims self)
            \<or> (\<exists>d\<in>set (chunk_dims self). upper d \<noteq> d)"
  proof
    assume "chunk_dims ?r \<noteq> chunk_dims self"
    then show "\<not> set REQUIRED_CHUNK_DIMS \<subseteq> set (chunk_dims self)
            \<or> (\<exists>d\<in>set (chunk_dims self). upper d \<noteq> d)"
      using same cd by metis
  next
    assume "\<not> set REQUIRED_CHUNK_DIMS \<subseteq> set (chunk_dims self)
            \<or> (\<exists>d\<in>set (chunk_dims self). upper d \<noteq> d)"
    then show "chunk_dims ?r \<noteq> chunk_dims self"
      using req up by metis
  qed
  have again: "fst (create_dask_array ?r tiff' dims_list') = ?r"
  proof -
    have "fst (create_dask_array ?r tiff' dims_list')
            = ?r\<lparr>chunk_dims := map upper (chunk_dims ?r
                         @ filter (\<lambda>d. d \<notin> set (chunk_dims ?r)) REQUIRED_CHUNK_DIMS)\<rparr>"
      by (simp only: create_dask_array_fst cl)
    also have "map upper (chunk_dims ?r
                         @ filter (\<lambda>d. d \<notin> set (chunk_dims ?r)) REQUIRED_CHUNK_DIMS)
                 = chunk_dims ?r"
    proof -
      have "filter (\<lambda>d. d \<notin> set (chunk_dims ?r)) REQUIRED_CHUNK_DIMS = []"
        using req by (auto simp: filter_empty_conv)
      then show ?thesis using up by (simp add: map_idI)
    qed
    finally show ?thesis by simp
  qed
  have frame: "path ?r = path self" "dim_order ?r = dim_order self"
    "channel_names ?r = channel_names self" "scenes_cache ?r = scenes_cache self"
    "physical_pixel_sizes_cache ?r = physical_pixel_sizes_cache self"
    "current_scene_index ?r = current_scene_index self"
    by (simp_all add: eq)
  show ?thesis
    by (intro conjI eq req up diff frame again)
qed

theorem create_dask_array_normalizes_chunk_dims_witness:
  "chunk_dims (fst (create_dask_array (ex_reader_chunks [''z''])
      (ex_tiff ''TZYX'' [2, 3, 4, 5]) [''T'', ''Z'', ''Y'', ''X''])) = [''Z'', ''Y'', ''X'', ''S'']
   \<and> chunk_dims (fst (create_dask_array (ex_reader_chunks [''z''])
      (ex_tiff ''TZYX'' [2, 3, 4, 5]) [''T'', ''Z'', ''Y'', ''X''])) \<noteq> chunk_dims (ex_reader_chunks [''z''])
   \<and> path (fst (create_dask_array (ex_reader_chunks [''z''])
      (ex_tiff ''TZYX'' [2, 3, 4, 5]) [''T'', ''Z'', ''Y'', ''X''])) = ''a.tif''
   \<and> fst (create_dask_array (fst (create_dask_array (ex_reader_chunks [''z''])
              (ex_tiff ''TZYX'' [2, 3, 4, 5]) [''T'', ''Z'', ''Y'', ''X'']))
            (ex_tiff ''YX'' [4, 5]) [''Y'', ''X''])
       = ex_reader_chunks [''Z'', ''Y'', ''X'', ''S'']"
proof -
  let ?r = "ex_reader_chunks [''z'']"
  let ?t = "ex_tiff ''TZYX'' [2, 3, 4, 5]"
  let ?d = "[''T'', ''Z'', ''Y'', ''X'']"
  note t = create_dask_array_normalizes_chunk_dims
             [of ?r ?t ?d "ex_tiff ''YX'' [4, 5]" "[''Y'', ''X'']"]
  have n: "map upper (chunk_dims ?r @ filter (\<lambda>d. d \<notin> set (chunk_dims ?r)) REQUIRED_CHUNK_DIMS)
             = [''Z'', ''Y'', ''X'', ''S'']"
    by code_simp
  have 1: "fst (create_dask_array ?r ?t ?d) = ex_reader_chunks [''Z'', ''Y'', ''X'', ''S'']"
    using t [THEN conjunct1] unfolding n by (simp add: ex_reader_chunks_def)
  have 2: "chunk_dims (fst (create_dask_array ?r ?t ?d)) = [''Z'', ''Y'', ''X'', ''S'']"
    unfolding 1 by (simp add: ex_reader_chunks_def)
  have 3: "chunk_dims (fst (create_dask_array ?r ?t ?d)) \<noteq> chunk_dims ?r"
    unfolding 2 by (simp add: ex_reader_chunks_def)
  have 4: "path (fst (create_dask_array ?r ?t ?d)) = ''a.tif''"
    unfolding 1 by (simp add: ex_reader_chunks_def ex_reader_def)
  have 5: "fst (create_dask_array (fst (create_dask_array ?r ?t ?d))
            (ex_tiff ''YX'' [4, 5]) [''Y'', ''X'']) = ex_reader_chunks [''Z'', ''Y'', ''X'', ''S'']"
    using t [THEN conjunct2, THEN conjunct2, THEN conjunct2, THEN conjunct2,
             THEN conjunct2, THEN conjunct2, THEN conjunct2, THEN conjunct2,
             THEN conjunct2, THEN conjunct2] 1 by simp
  show ?thesis by (intro conjI 2 3 4 5)
qed

section \<open>Properties of the physical pixel sizes\<close>

lemma unit_code_unrecognized:
  "map_of NAME_TO_MICRONS (Code u) = None \<longleftrightarrow> u \<notin> {1, 2, 3, 4, 5}"
  by (auto simp: NAME_TO_MICRONS_def)

lemma get_pixel_size_formula:
  assumes "TiffFile path_or_file = Inr tiff"
    and "list_get (series tiff) series_index = Inr scene"
    and "unit_and_z_size tiff (first_page_tags scene) = Inr (unit_token, z_size)"
    and "XResolution (first_page_tags scene) = Some (x_npix, x_res_units)"
    and "YResolution (first_page_tags scene) = Some (y_npix, y_res_units)"
    and "x_npix \<noteq> 0" and "y_npix \<noteq> 0"
  shows "get_pixel_size path_or_file series_index =
           Inr (map_option (\<lambda>z. z * dict_get NAME_TO_MICRONS unit_token 1) z_size,
                Some (dict_get NAME_TO_MICRONS unit_token 1 * real_of_int y_res_units
                        / real_of_int y_npix),
                Some (dict_get NAME_TO_MICRONS unit_token 1 * real_of_int x_res_units
                        / real_of_int x_npix))"
  using assms by (simp add: get_pixel_size_def tag_item_def true_div_def Let_def)

lemma get_pixel_size_no_unit:
  assumes "TiffFile path_or_file = Inr tiff"
    and "list_get (series tiff) series_index = Inr scene"
    and "unit_and_z_size tiff (first_page_tags scene) = Inl e"
  shows "get_pixel_size path_or_file series_index = Inl e"
  using assms by (simp add: get_pixel_size_def Let_def)

lemma unit_and_z_size_plain:
  "\<not> is_imagej tiff \<Longrightarrow>
   unit_and_z_size tiff tags =
     (case ResolutionUnit tags of None \<Rightarrow> Inl KeyError | Some u \<Rightarrow> Inr (Code u, None))"
  by (simp add: unit_and_z_size_def tag_item_def split: option.splits)


lemma ex_tagged_scene:
  "list_get (series (ex_tagged_tiff tags ij)) 0
     = Inr \<lparr>pages_axes = ''YX'', series_shape = [512, 512], series_dtype = ''uint16'',
            first_page_tags = tags\<rparr>"
  by (simp add: list_get_def ex_tagged_tiff_def)

text \<open>
  C5, as stated, fails: on a file that is not an ImageJ file and whose first page has
  the two resolution tags but no \<open>ResolutionUnit\<close> tag, subscripting the tags raises
  \<open>KeyError\<close>, so no sizes are returned.
\<close>

theorem get_pixel_size_absent_unit_counterexample:
  "\<not> is_imagej (ex_tagged_tiff (ex_tags None (Some (4, 1)) (Some (8, 2))) None)
   \<and> ResolutionUnit (ex_tags None (Some (4, 1)) (Some (8, 2))) = None
   \<and> XResolution (ex_tags None (Some (4, 1)) (Some (8, 2))) = Some (4, 1)
   \<and> YResolution (ex_tags None (Some (4, 1)) (Some (8, 2))) = Some (8, 2)
   \<and> get_pixel_size (Tiff (ex_tagged_tiff (ex_tags None (Some (4, 1)) (Some (8, 2))) None)) 0
       = Inl KeyError"
  by (simp add: is_imagej_def ex_tagged_tiff_def ex_tags_def get_pixel_size_def TiffFile_def
        list_get_def unit_and_z_size_def tag_item_def)

text \<open>
  C5, amended.  On a file that is not an ImageJ file, with both resolution tags present
  and non-zero pixel counts: when the \<open>ResolutionUnit\<close> tag is present and its token is
  not a key of the unit table, the unit scalar defaults to 1 and the sizes are the
  inverted X and Y fractions; when the \<open>ResolutionUnit\<close> tag is absent, \<open>_get_pixel_size\<close>
  raises \<open>KeyError\<close>.
\<close>

theorem get_pixel_size_unrecognized_unit:
  assumes opened: "TiffFile path_or_file = Inr tiff"
    and scene: "list_get (series tiff) series_index = Inr scene"
    and plain: "\<not> is_imagej tiff"
    and x: "XResolution (first_page_tags scene) = Some (x_npix, x_res_units)"
    and y: "YResolution (first_page_tags scene) = Some (y_npix, y_res_units)"
    and nz: "x_npix \<noteq> 0" "y_npix \<noteq> 0"
  shows "(\<forall>u. ResolutionUnit (first_page_tags scene) = Some u \<and> u \<notin> {1, 2, 3, 4, 5} \<longrightarrow>
            dict_get NAME_TO_MICRONS (Code u) 1 = 1
          \<and> get_pixel_size path_or_file series_index =
              Inr (None, Some (real_of_int y_res_units / real_of_int y_npix),
                         Some (real_of_int x_res_units / real_of_int x_npix)))
       \<and> (ResolutionUnit (first_page_tags scene) = None \<longrightarrow>
            get_pixel_size path_or_file series_index = Inl KeyError)"
proof (intro conjI allI impI)
  fix u
  assume u: "ResolutionUnit (first_page_tags scene) = Some u \<and> u \<notin> {1, 2, 3, 4, 5}"
  then have "u \<notin> {1, 2, 3, 4, 5}" by (rule conjunct2)
  then have "map_of NAME_TO_MICRONS (Code u) = None"
    by (rule unit_code_unrecognized [THEN iffD2])
  then show s: "dict_get NAME_TO_MICRONS (Code u) 1 = 1"
    by (simp add: dict_get_def)
  have "unit_and_z_size tiff (first_page_tags scene) = Inr (Code u, None)"
    using plain u by (simp add: unit_and_z_size_plain)
  from get_pixel_size_formula [OF opened scene this x y nz]
  show "get_pixel_size path_or_file series_index =
          Inr (None, Some (real_of_int y_res_units / real_of_int y_npix),
                     Some (real_of_int x_res_units / real_of_int x_npix))"
    by (simp add: s)
next
  assume "ResolutionUnit (first_page_tags scene) = None"
  then have "unit_and_z_size tiff (first_page_tags scene) = Inl KeyError"
    using plain by (simp add: unit_and_z_size_plain)
  with opened scene show "get_pixel_size path_or_file series_index = Inl KeyError"
    by (rule get_pixel_size_no_unit)
qed

theorem get_pixel_size_unrecognized_unit_witness:
  "TiffFile (Tiff (ex_tagged_tiff (ex_tags (Some 7) (Some (4, 1)) (Some (8, 2))) None))
     = Inr (ex_tagged_tiff (ex_tags (Some 7) (Some (4, 1)) (Some (8, 2))) None)
   \<and> \<not> is_imagej (ex_tagged_tiff (ex_tags (Some 7) (Some (4, 1)) (Some (8, 2))) None)
   \<and> ResolutionUnit (ex_tags (Some 7) (Some (4, 1)) (Some (8, 2))) = Some 7
   \<and> (7 :: int) \<notin> {1, 2, 3, 4, 5}
   \<and> get_pixel_size (Tiff (ex_tagged_tiff (ex_tags (Some 7) (Some (4, 1)) (Some (8, 2))) None)) 0
       = Inr (None, Some (2 / 8), Some (1 / 4))"
proof -
  let ?tags = "ex_tags (Some 7) (Some (4, 1)) (Some (8, 2))"
  let ?t = "ex_tagged_tiff ?tags None"
  let ?scene = "\<lparr>pages_axes = ''YX'', series_shape = [512, 512], series_dtype = ''uint16'',
            first_page_tags = ?tags\<rparr>"
  have o: "TiffFile (Tiff ?t) = Inr ?t" by (simp add: TiffFile_def)
  have sc: "list_get (series ?t) 0 = Inr ?scene" by (rule ex_tagged_scene)
  have p: "\<not> is_imagej ?t" by (simp add: is_imagej_def ex_tagged_tiff_def)
  have x: "XResolution (first_page_tags ?scene) = Some (4, 1)" by (simp add: ex_tags_def)
  have y: "YResolution (first_page_tags ?scene) = Some (8, 2)" by (simp add: ex_tags_def)
  have u: "ResolutionUnit ?tags = Some 7" by (simp add: ex_tags_def)
  have n: "(7 :: int) \<notin> {1, 2, 3, 4, 5}" by simp
  have un: "ResolutionUnit (first_page_tags ?scene) = Some 7 \<and> (7 :: int) \<notin> {1, 2, 3, 4, 5}"
    by (simp add: ex_tags_def)
  have z4: "(4 :: int) \<noteq> 0" and z8: "(8 :: int) \<noteq> 0" by simp_all
  note t = get_pixel_size_unrecognized_unit [OF o sc p x y z4 z8]
  have "get_pixel_size (Tiff ?t) 0
          = Inr (None, Some (real_of_int 2 / real_of_int 8), Some (real_of_int 1 / real_of_int 4))"
    using t [THEN conjunct1, THEN spec, THEN mp, OF un, THEN conjunct2] by simp
  then have r: "get_pixel_size (Tiff ?t) 0 = Inr (None, Some (2 / 8), Some (1 / 4))"
    by simp
  show ?thesis by (intro conjI o p u n r)
qed



text \<open>
  C7.  When the extraction of the pixel sizes raises an exception \<open>e\<close>, the property
  \<open>physical_pixel_sizes\<close> does not raise: it returns \<open>(None, None, None)\<close>, keeps that
  value, and issues the warning for \<open>e\<close>.  The only exception the property can raise is
  one from opening the file, which is outside the \<open>try\<close>.
\<close>

theorem physical_pixel_sizes_absorbs_failure:
  "(physical_pixel_sizes_cache self = None
      \<and> fs_open fs (path self) = Inr open_resource
      \<and> get_pixel_size open_resource (current_scene_index self) = Inl e \<longrightarrow>
        physical_pixel_sizes fs self =
          (Inr (None, None, None),
           self\<lparr>physical_pixel_sizes_cache := Some (None, None, None)\<rparr>,
           [CouldNotParseTiffPixelSize e]))
   \<and> (\<forall>e'. fst (physical_pixel_sizes fs self) = Inl e' \<longrightarrow>
          physical_pixel_sizes_cache self = None \<and> fs_open fs (path self) = Inl e')"
proof (intro conjI impI allI)
  assume "physical_pixel_sizes_cache self = None
      \<and> fs_open fs (path self) = Inr open_resource
      \<and> get_pixel_size open_resource (current_scene_index self) = Inl e"
  then show "physical_pixel_sizes fs self =
          (Inr (None, None, None),
           self\<lparr>physical_pixel_sizes_cache := Some (None, None, None)\<rparr>,
           [CouldNotParseTiffPixelSize e])"
    by (simp add: physical_pixel_sizes_def)
next
  fix e'
  assume p: "fst (physical_pixel_sizes fs self) = Inl e'"
  then show "physical_pixel_sizes_cache self = None"
    by (cases "physical_pixel_sizes_cache self") (simp_all add: physical_pixel_sizes_def)
  then show "fs_open fs (path self) = Inl e'"
    using p
    by (cases "fs_open fs (path self)")
       (simp_all add: physical_pixel_sizes_def split: sum.splits prod.splits)
qed

theorem physical_pixel_sizes_absorbs_failure_witness:
  "physical_pixel_sizes_cache ex_reader = None
   \<and> fs_open (ex_fs NotTiff) (path ex_reader) = Inr NotTiff
   \<and> get_pixel_size NotTiff (current_scene_index ex_reader) = Inl TiffFileError
   \<and> physical_pixel_sizes (ex_fs NotTiff) ex_reader =
       (Inr (None, None, None),
        ex_reader\<lparr>physical_pixel_sizes_cache := Some (None, None, None)\<rparr>,
        [CouldNotParseTiffPixelSize TiffFileError])"
proof -
  have c: "physical_pixel_sizes_cache ex_reader = None" by (simp add: ex_reader_def)
  have o: "fs_open (ex_fs NotTiff) (path ex_reader) = Inr NotTiff"
    by (simp add: fs_open_def ex_fs_def ex_reader_def)
  have g: "get_pixel_size NotTiff (current_scene_index ex_reader) = Inl TiffFileError"
    by (simp add: get_pixel_size_def TiffFile_def)
  have pre: "physical_pixel_sizes_cache ex_reader = None
      \<and> fs_open (ex_fs NotTiff) (path ex_reader) = Inr NotTiff
      \<and> get_pixel_size NotTiff (current_scene_index ex_reader) = Inl TiffFileError"
    by (intro conjI c o g)
  note r = physical_pixel_sizes_absorbs_failure [THEN conjunct1, THEN mp, OF pre]
  show ?thesis by (intro conjI c o g r)
qed

section \<open>Properties of the constructor\<close>

text \<open>
  C9.  For a file that decodes with \<open>N\<close> scenes, constructing a reader with \<open>dim_order\<close>
  given as a list whose length is not \<open>N\<close> raises \<open>ConflictingArgumentsError\<close>; no reader
  is built.
\<close>

theorem init_dim_order_list_mismatch:
  assumes "fs image_path = Some (Tiff tiff)"
    and "length ds \<noteq> length (series tiff)"
  shows "snd (init fs image_path chunk_dims_given (DimList ds) channel_names_given)
           = Inl ConflictingArgumentsError"
  using assms
  by (simp add: init_def Let_def check_dim_order_def scenes_def fs_open_def TiffFile_def)

theorem init_dim_order_list_mismatch_witness:
  "ex_fs (Tiff ex_two_scenes) ''a.tif'' = Some (Tiff ex_two_scenes)
   \<and> length [Some ''YX'', Some ''CYX'', Some ''TCYX''] \<noteq> length (series ex_two_scenes)
   \<and> snd (init (ex_fs (Tiff ex_two_scenes)) ''a.tif'' (ChunkStr ''ZYX'')
             (DimList [Some ''YX'', Some ''CYX'', Some ''TCYX'']) ChNone)
       = Inl ConflictingArgumentsError"
proof -
  have f: "ex_fs (Tiff ex_two_scenes) ''a.tif'' = Some (Tiff ex_two_scenes)"
    by (simp add: ex_fs_def)
  have l: "length [Some ''YX'', Some ''CYX'', Some ''TCYX''] \<noteq> length (series ex_two_scenes)"
    by (simp add: ex_two_scenes_def)
  note r = init_dim_order_list_mismatch
             [where fs = "ex_fs (Tiff ex_two_scenes)" and image_path = "''a.tif''", OF f l]
  show ?thesis
    by (intro conjI f l r)
qed

end
